theory Spec2Isabelle
  imports Main
begin

section \<open>Errors (utils/errors.ts, middlewares/errorHandler.ts)\<close>

text \<open>
  The application errors of \<^verbatim>\<open>errors.ts\<close>, each with its message (a
  \<^verbatim>\<open>ValidationError\<close> also carries its list of field errors). The three last
  constructors are the errors Mongoose and MongoDB throw, which are not
  \<^verbatim>\<open>AppError\<close>s: a string that does not cast to an ObjectId
  (\<^verbatim>\<open>CastError\<close>), a write refused by a unique index (MongoDB's error 11000) and
  a document refused by the validators of its schema (\<^verbatim>\<open>required\<close>,
  \<^verbatim>\<open>enum\<close>). \<open>statusCode\<close> is the status \<^verbatim>\<open>errorHandler\<close> answers with:
  the error's own \<^verbatim>\<open>statusCode\<close>, 400 for a cast error (\<^verbatim>\<open>Invalid ID format\<close>),
  409 for a duplicate key, 400 for a Mongoose validation error.
\<close>

datatype error =
    ValidationError string "string list"
  | AuthenticationError string
  | AuthorizationError string
  | NotFoundError string
  | ConflictError string
  | CastError
  | DuplicateKeyError
  | SchemaValidationError

fun statusCode :: "error \<Rightarrow> nat" where
  "statusCode (ValidationError m es) = 400"
| "statusCode (AuthenticationError m) = 401"
| "statusCode (AuthorizationError m) = 403"
| "statusCode (NotFoundError m) = 404"
| "statusCode (ConflictError m) = 409"
| "statusCode CastError = 400"
| "statusCode DuplicateKeyError = 409"
| "statusCode SchemaValidationError = 400"

section \<open>Documents (src/models)\<close>

text \<open>
  The ObjectIds are the values of a type \<open>'i\<close>, of which the code uses nothing but
  equality (\<^verbatim>\<open>a.toString() !== b.toString()\<close> compares two ids). A request names an
  id by a string, and Mongoose casts that string before it runs a query: the cast is the
  parameter \<open>cast\<close> of every handler that takes an id from a request. It gives the id
  the string spells, the same for every spelling of one id, and \<open>None\<close> where Mongoose
  throws \<^verbatim>\<open>CastError\<close> because the string spells no id.

  Dates are milliseconds. The fields written by Mongoose itself carry the collection's
  prefix (\<^verbatim>\<open>_id\<close> is \<open>user_id\<close>, \<open>job_id\<close>, \<open>app_id\<close>; the
  \<^verbatim>\<open>timestamps\<close> option gives \<open>..._createdAt\<close> and \<open>..._updatedAt\<close>); every
  other field has the name the schema gives it. \<^verbatim>\<open>role\<close>, \<^verbatim>\<open>jobStatus\<close>
  and \<^verbatim>\<open>applicationStatus\<close> are the strings the handlers compare.
\<close>

type_synonym date = int

record 'i user =
  user_id :: 'i
  email :: string
  password :: string
  firstName :: "string option"
  lastName :: "string option"
  company :: "string option"
  role :: string
  isBanned :: bool
  user_createdAt :: date
  user_updatedAt :: date

record salary =
  salary_min :: "int option"
  salary_max :: "int option"

record 'i job =
  job_id :: 'i
  title :: string
  description :: string
  companyName :: string
  location :: string
  jobType :: string
  salaryRange :: "salary option"
  skills :: "string list"
  createdBy :: 'i
  jobStatus :: string
  job_createdAt :: date
  job_updatedAt :: date

record 'i application =
  app_id :: 'i
  jobId :: 'i
  candidateId :: 'i
  coverLetter :: "string option"
  resume :: "string option"
  applicationStatus :: string
  appliedAt :: date
  app_createdAt :: date
  app_updatedAt :: date

text \<open>The three collections, each in insertion order.\<close>

record 'i db =
  users :: "'i user list"
  jobs :: "'i job list"
  applications :: "'i application list"

section \<open>The Mongoose queries the handlers call\<close>

definition findOne :: "('d \<Rightarrow> bool) \<Rightarrow> 'd list \<Rightarrow> 'd option" where
  "findOne q coll = find q coll"

definition deleteMany :: "('d \<Rightarrow> bool) \<Rightarrow> 'd list \<Rightarrow> 'd list" where
  "deleteMany q coll = filter (\<lambda>d. \<not> q d) coll"

text \<open>\<^verbatim>\<open>findByIdAndDelete\<close> removes one document, the first that matches.\<close>

fun deleteFirst :: "('d \<Rightarrow> bool) \<Rightarrow> 'd list \<Rightarrow> 'd list" where
  "deleteFirst q [] = []"
| "deleteFirst q (d # ds) = (if q d then ds else d # deleteFirst q ds)"


text \<open>The look-up of a document by an id that has been cast.\<close>

definition User_findById :: "'i db \<Rightarrow> 'i \<Rightarrow> 'i user option" where
  "User_findById s i = findOne (\<lambda>u. user_id u = i) (users s)"

definition Job_findById :: "'i db \<Rightarrow> 'i \<Rightarrow> 'i job option" where
  "Job_findById s i = findOne (\<lambda>j. job_id j = i) (jobs s)"

text \<open>
  A handler returns its outcome and the store it leaves: \<open>Inl\<close> is the error it throws,
  \<open>Inr\<close> the payload of its response.
\<close>

type_synonym ('a, 'i) result = "(error + 'a) \<times> 'i db"

text \<open>
  JavaScript's \<^verbatim>\<open>!v\<close> on an optional string: \<^verbatim>\<open>undefined\<close> and the
  empty string are falsy.
\<close>

definition falsy :: "string option \<Rightarrow> bool" where
  "falsy v = (v = None \<or> v = Some [])"

section \<open>Schemas: validators and unique indexes (src/models)\<close>

text \<open>
  A schema's unique indexes, each as the key it reads off a document. \<^verbatim>\<open>UserSchema\<close>
  declares \<^verbatim>\<open>email: { unique: true }\<close>; \<^verbatim>\<open>ApplicationSchema\<close> declares no
  index at all (Application.ts has no \<^verbatim>\<open>unique\<close> option and no call of
  \<^verbatim>\<open>ApplicationSchema.index\<close>).
\<close>

definition UserSchema_unique :: "('i user \<Rightarrow> string list) list" where
  "UserSchema_unique = [\<lambda>u. [email u]]"

definition ApplicationSchema_unique :: "('i application \<Rightarrow> 'i list) list" where
  "ApplicationSchema_unique = []"

definition violates_unique :: "('d \<Rightarrow> 'k) list \<Rightarrow> 'd \<Rightarrow> 'd list \<Rightarrow> bool" where
  "violates_unique keys d coll = list_ex (\<lambda>k. list_ex (\<lambda>e. k e = k d) coll) keys"

text \<open>
  \<^verbatim>\<open>required: true\<close> on a string refuses the empty string; \<^verbatim>\<open>enum\<close> refuses
  a value outside its list.
\<close>

definition UserSchema_valid :: "'i user \<Rightarrow> bool" where
  "UserSchema_valid u =
     (email u \<noteq> [] \<and> password u \<noteq> [] \<and> role u \<in> set [''admin'', ''employer'', ''candidate''])"

text \<open>
  \<^verbatim>\<open>new User({email, password, role})\<close>: \<^verbatim>\<open>isBanned\<close> defaults to false; the
  id comes from the driver and the timestamps from the clock.
\<close>

definition new_User :: "'i \<Rightarrow> date \<Rightarrow> string \<Rightarrow> string \<Rightarrow> string \<Rightarrow> 'i user" where
  "new_User newId now e p r =
     \<lparr>user_id = newId, email = e, password = p, firstName = None, lastName = None,
      company = None, role = r, isBanned = False, user_createdAt = now, user_updatedAt = now\<rparr>"

definition User_save :: "'i user \<Rightarrow> 'i db \<Rightarrow> error + 'i db" where
  "User_save u s =
     (if \<not> UserSchema_valid u then Inl SchemaValidationError
      else if violates_unique UserSchema_unique u (users s) then Inl DuplicateKeyError
      else Inr (s\<lparr>users := users s @ [u]\<rparr>))"

text \<open>
  The fields \<^verbatim>\<open>new Application(data)\<close> reads, the two references as ObjectIds
  (\<^verbatim>\<open>Partial<IApplication>\<close>). \<^verbatim>\<open>jobId\<close> and \<^verbatim>\<open>candidateId\<close> are
  required; \<^verbatim>\<open>coverLetter\<close> and \<^verbatim>\<open>resume\<close> are plain optional strings;
  \<^verbatim>\<open>applicationStatus\<close> defaults to \<^verbatim>\<open>"pending"\<close> and
  \<^verbatim>\<open>appliedAt\<close> to \<^verbatim>\<open>Date.now\<close>.
\<close>

record 'i application_data =
  data_jobId :: "'i option"
  data_candidateId :: "'i option"
  data_coverLetter :: "string option"
  data_resume :: "string option"
  data_applicationStatus :: "string option"
  data_appliedAt :: "date option"

definition new_Application :: "'i \<Rightarrow> date \<Rightarrow> 'i application_data \<Rightarrow> 'i application option" where
  "new_Application newId now d =
     (case (data_jobId d, data_candidateId d) of
        (Some j, Some c) \<Rightarrow>
          Some \<lparr>app_id = newId, jobId = j, candidateId = c,
                coverLetter = data_coverLetter d, resume = data_resume d,
                applicationStatus =
                  (case data_applicationStatus d of None \<Rightarrow> ''pending'' | Some st \<Rightarrow> st),
                appliedAt = (case data_appliedAt d of None \<Rightarrow> now | Some t \<Rightarrow> t),
                app_createdAt = now, app_updatedAt = now\<rparr>
      | _ \<Rightarrow> None)"

text \<open>\<^verbatim>\<open>new Application(data).save()\<close>: validate, check the unique indexes, insert.\<close>

definition Application_create ::
  "'i \<Rightarrow> date \<Rightarrow> 'i application_data \<Rightarrow> 'i db \<Rightarrow> error + 'i application \<times> 'i db" where
  "Application_create newId now d s =
     (case new_Application newId now d of
        None \<Rightarrow> Inl SchemaValidationError
      | Some a \<Rightarrow>
          if applicationStatus a \<notin> set [''pending'', ''accepted'', ''rejected'']
          then Inl SchemaValidationError
          else if violates_unique ApplicationSchema_unique a (applications s)
          then Inl DuplicateKeyError
          else Inr (a, s\<lparr>applications := applications s @ [a]\<rparr>))"

section \<open>The identity resolver and the role gate (middlewares/auth.ts)\<close>

text \<open>
  \<^verbatim>\<open>String.prototype.replace\<close> with a string pattern replaces the first occurrence.
\<close>

fun replaceFirst :: "string \<Rightarrow> string \<Rightarrow> string \<Rightarrow> string" where
  "replaceFirst pat rep [] = (if pat = [] then rep else [])"
| "replaceFirst pat rep (c # cs) =
     (if take (length pat) (c # cs) = pat then rep @ drop (length pat) (c # cs)
      else c # replaceFirst pat rep cs)"

text \<open>
  \<^verbatim>\<open>jwt.verify\<close> is a parameter: it gives the \<^verbatim>\<open>userId\<close> string of a token
  whose signature and expiry are good, and \<open>None\<close> where it throws.
  \<^verbatim>\<open>User.findById\<close> casts that string. Whatever is thrown inside the
  \<^verbatim>\<open>try\<close> block, a \<^verbatim>\<open>CastError\<close> too, reaches \<^verbatim>\<open>next\<close> as an
  \<^verbatim>\<open>AuthenticationError\<close>. On success the user is attached to the request
  (\<open>Inr\<close>).
\<close>

definition bearer_token :: "string option \<Rightarrow> string option" where
  "bearer_token authorization = map_option (replaceFirst ''Bearer '' []) authorization"

definition authenticate ::
  "(string \<Rightarrow> 'i option) \<Rightarrow> (string \<Rightarrow> string option) \<Rightarrow> string option \<Rightarrow> 'i db \<Rightarrow>
     error + 'i user" where
  "authenticate cast jwt_verify authorization s =
     (let token = bearer_token authorization in
      if falsy token then Inl (AuthenticationError ''Access denied. No token provided.'')
      else case Option.bind (Option.bind token jwt_verify) cast of
        None \<Rightarrow> Inl (AuthenticationError ''Invalid token.'')
      | Some userId \<Rightarrow>
          (case User_findById s userId of
             None \<Rightarrow> Inl (AuthenticationError ''Invalid token.'')
           | Some u \<Rightarrow>
               if isBanned u then Inl (AuthenticationError ''User is banned.'')
               else Inr u))"

definition authorize :: "string list \<Rightarrow> 'i user option \<Rightarrow> error + unit" where
  "authorize roles req_user =
     (case req_user of
        None \<Rightarrow> Inl (AuthenticationError ''Access denied.'')
      | Some u \<Rightarrow>
          if role u \<notin> set roles then Inl (AuthorizationError ''Insufficient permissions.'')
          else Inr ())"

section \<open>Applications (applicationController.ts, applicationRoutes.ts)\<close>

text \<open>
  \<^verbatim>\<open>req.user\<close> is optional in \<^verbatim>\<open>AuthRequest\<close>: the handlers read it with
  \<^verbatim>\<open>req.user?.role\<close> and \<^verbatim>\<open>req.user?._id?.toString()\<close>, which are
  \<^verbatim>\<open>undefined\<close> (here \<open>None\<close>) when no user is attached. The body of an
  application holds up to three strings.
\<close>

record apply_body =
  body_jobId :: "string option"
  body_coverLetter :: "string option"
  body_resume :: "string option"

text \<open>
  \<^verbatim>\<open>Job.findById(jobId)\<close> is the first query of the handler and the one that throws
  on a string that spells no id; the same string, cast, is the \<^verbatim>\<open>jobId\<close> of the
  \<^verbatim>\<open>findOne\<close> filter and of the new application.
\<close>

definition applyForJob ::
  "(string \<Rightarrow> 'i option) \<Rightarrow> 'i \<Rightarrow> date \<Rightarrow> 'i user option \<Rightarrow> apply_body \<Rightarrow> 'i db \<Rightarrow>
     ('i application, 'i) result" where
  "applyForJob cast newId now req_user body s =
     (if falsy (body_jobId body) then (Inl (ValidationError ''Job ID is required'' []), s)
      else if falsy (body_coverLetter body)
      then (Inl (ValidationError ''Cover letter is required'' []), s)
      else if falsy (body_resume body) then (Inl (ValidationError ''Resume is required'' []), s)
      else if map_option role req_user \<noteq> Some ''candidate''
      then (Inl (AuthorizationError ''Only candidates can apply for jobs''), s)
      else case Option.bind (body_jobId body) cast of
        None \<Rightarrow> (Inl CastError, s)
      | Some ident \<Rightarrow>
          (case Job_findById s ident of
             None \<Rightarrow> (Inl (NotFoundError ''Job not found''), s)
           | Some j \<Rightarrow>
               if jobStatus j \<noteq> ''Active''
               then (Inl (ValidationError ''Job is not active'' []), s)
               else case findOne (\<lambda>a. jobId a = ident
                                     \<and> Some (candidateId a) = map_option user_id req_user)
                           (applications s) of
                 Some existingApplication \<Rightarrow>
                   (Inl (ConflictError ''Already applied for this job''), s)
               | None \<Rightarrow>
                   (case Application_create newId now
                           \<lparr>data_jobId = Some ident,
                            data_candidateId = map_option user_id req_user,
                            data_coverLetter = body_coverLetter body,
                            data_resume = body_resume body,
                            data_applicationStatus = None, data_appliedAt = None\<rparr> s of
                      Inl e \<Rightarrow> (Inl e, s)
                    | Inr (a, s') \<Rightarrow> (Inr a, s'))))"

definition validateApplication :: "apply_body \<Rightarrow> error + unit" where
  "validateApplication body =
     (if falsy (body_jobId body) then Inl (ValidationError ''Job ID is required'' [])
      else Inr ())"

text \<open>
  The apply operation, as the router mounts it after \<^verbatim>\<open>authenticate\<close>:
  \<^verbatim>\<open>authorize("candidate")\<close>, \<^verbatim>\<open>validateApplication\<close>, the handler.
\<close>

definition route_apply ::
  "(string \<Rightarrow> 'i option) \<Rightarrow> 'i \<Rightarrow> date \<Rightarrow> 'i user option \<Rightarrow> apply_body \<Rightarrow> 'i db \<Rightarrow>
     ('i application, 'i) result" where
  "route_apply cast newId now req_user body s =
     (case authorize [''candidate''] req_user of
        Inl e \<Rightarrow> (Inl e, s)
      | Inr ok \<Rightarrow>
          (case validateApplication body of
             Inl e \<Rightarrow> (Inl e, s)
           | Inr ok' \<Rightarrow> applyForJob cast newId now req_user body s))"

text \<open>\<^verbatim>\<open>ApplicationService.createApplication\<close>: the insert with no check before it.\<close>

definition createApplication ::
  "'i \<Rightarrow> date \<Rightarrow> 'i application_data \<Rightarrow> 'i db \<Rightarrow> ('i application, 'i) result" where
  "createApplication newId now applicationData s =
     (case Application_create newId now applicationData s of
        Inl e \<Rightarrow> (Inl e, s)
      | Inr (a, s') \<Rightarrow> (Inr a, s'))"

text \<open>
  An application of a listing, with its two populated references: the candidate's id and
  email, and the job's id, title and company name (\<open>None\<close> where the referenced document
  is gone). The listing is sorted by \<^verbatim>\<open>appliedAt\<close>, newest first.
\<close>

type_synonym 'i listed_application =
  "'i application \<times> ('i \<times> string) option \<times> ('i \<times> string \<times> string) option"

definition populate_application :: "'i db \<Rightarrow> 'i application \<Rightarrow> 'i listed_application" where
  "populate_application s a =
     (a, map_option (\<lambda>u. (user_id u, email u)) (User_findById s (candidateId a)),
         map_option (\<lambda>j. (job_id j, title j, companyName j)) (Job_findById s (jobId a)))"

text \<open>
  The path parameter is cast by the first query that takes it:
  \<^verbatim>\<open>Job.findById(jobId)\<close> for an employer, \<^verbatim>\<open>Application.find({ jobId })\<close>
  for an admin, for whom the job is not loaded.
\<close>

definition getJobApplications ::
  "(string \<Rightarrow> 'i option) \<Rightarrow> 'i user option \<Rightarrow> string \<Rightarrow> 'i db \<Rightarrow>
     ('i listed_application list, 'i) result" where
  "getJobApplications cast req_user jobId_param s =
     (if map_option role req_user \<noteq> Some ''employer'' \<and> map_option role req_user \<noteq> Some ''admin''
      then (Inl (AuthorizationError ''Only employers can view job applications''), s)
      else case cast jobId_param of
        None \<Rightarrow> (Inl CastError, s)
      | Some ident \<Rightarrow>
          (case (if map_option role req_user = Some ''employer''
                 then (case Job_findById s ident of
                         None \<Rightarrow> Some (NotFoundError ''Job not found'')
                       | Some j \<Rightarrow>
                           if Some (createdBy j) \<noteq> map_option user_id req_user
                           then Some (AuthorizationError
                                        ''Not authorized to view applications for this job'')
                           else None)
                 else None) of
             Some e \<Rightarrow> (Inl e, s)
           | None \<Rightarrow>
               (Inr (map (populate_application s)
                       (sort_key (\<lambda>a. - appliedAt a)
                          (filter (\<lambda>a. jobId a = ident) (applications s)))), s)))"

text \<open>
  The listing operation, as the router mounts it after \<^verbatim>\<open>authenticate\<close>:
  \<^verbatim>\<open>authorize("employer", "admin")\<close>, then the handler.
\<close>

definition route_getJobApplications ::
  "(string \<Rightarrow> 'i option) \<Rightarrow> 'i user option \<Rightarrow> string \<Rightarrow> 'i db \<Rightarrow>
     ('i listed_application list, 'i) result" where
  "route_getJobApplications cast req_user jobId_param s =
     (case authorize [''employer'', ''admin''] req_user of
        Inl e \<Rightarrow> (Inl e, s)
      | Inr ok \<Rightarrow> getJobApplications cast req_user jobId_param s)"

section \<open>Jobs (jobController.ts, jobRoutes.ts)\<close>

text \<open>
  The query of the public listing. \<^verbatim>\<open>page\<close> and \<^verbatim>\<open>limit\<close> are the numbers
  \<^verbatim>\<open>Number(...)\<close> reads (integers here), 1 and 10 when absent.
\<close>

record jobs_query =
  query_page :: "int option"
  query_limit :: "int option"
  query_search :: "string option"
  query_location :: "string option"
  query_jobType :: "string option"

text \<open>
  MongoDB's \<^verbatim>\<open>$regex\<close> with option \<^verbatim>\<open>i\<close> is a parameter \<open>regex\<close>: a pattern
  compiles to a test on strings, or is refused (\<open>None\<close>). A query whose pattern is refused
  fails as a whole.
\<close>

definition regex_ok :: "(string \<Rightarrow> (string \<Rightarrow> bool) option) \<Rightarrow> string option \<Rightarrow> bool" where
  "regex_ok regex p = (case p of None \<Rightarrow> True | Some t \<Rightarrow> t = [] \<or> regex t \<noteq> None)"

definition regex_test :: "(string \<Rightarrow> (string \<Rightarrow> bool) option) \<Rightarrow> string \<Rightarrow> string \<Rightarrow> bool" where
  "regex_test regex p subject = (case regex p of None \<Rightarrow> False | Some m \<Rightarrow> m subject)"

definition getAllJobs_query ::
  "(string \<Rightarrow> (string \<Rightarrow> bool) option) \<Rightarrow> jobs_query \<Rightarrow> 'i job \<Rightarrow> bool" where
  "getAllJobs_query regex q j =
     (jobStatus j = ''Active''
      \<and> (case query_search q of
            None \<Rightarrow> True
          | Some t \<Rightarrow> t = [] \<or> regex_test regex t (title j) \<or> regex_test regex t (description j)
                        \<or> regex_test regex t (companyName j))
      \<and> (case query_location q of
            None \<Rightarrow> True
          | Some t \<Rightarrow> t = [] \<or> regex_test regex t (location j))
      \<and> (case query_jobType q of
            None \<Rightarrow> True
          | Some t \<Rightarrow> t = [] \<or> jobType j = t))"

text \<open>
  \<^verbatim>\<open>.limit(l).skip(k)\<close> on a sorted cursor: a negative skip is refused by the server,
  a limit of 0 is no limit, a negative limit counts as its absolute value.
\<close>

definition paginate :: "int \<Rightarrow> int \<Rightarrow> 'd list \<Rightarrow> 'd list option" where
  "paginate k l ds =
     (if k < 0 then None
      else if l = 0 then Some (drop (nat k) ds)
      else Some (take (nat \<bar>l\<bar>) (drop (nat k) ds)))"

definition populate_createdBy :: "'i db \<Rightarrow> 'i job \<Rightarrow> 'i job \<times> ('i \<times> string) option" where
  "populate_createdBy s j =
     (j, map_option (\<lambda>u. (user_id u, email u)) (User_findById s (createdBy j)))"

text \<open>
  The response of the listing. \<^verbatim>\<open>Math.ceil(total / limit)\<close> is infinite or NaN for a
  limit of 0, which JSON writes as null (\<open>None\<close>).
\<close>

record 'i jobs_page =
  page_jobs :: "('i job \<times> ('i \<times> string) option) list"
  page_totalPages :: "int option"
  page_currentPage :: int
  page_total :: int

datatype storage_error = InvalidRegex | NegativeSkip

definition getAllJobs ::
  "(string \<Rightarrow> (string \<Rightarrow> bool) option) \<Rightarrow> jobs_query \<Rightarrow> 'i db \<Rightarrow> storage_error + 'i jobs_page"
  where
  "getAllJobs regex q s =
     (let page = (case query_page q of None \<Rightarrow> 1 | Some p \<Rightarrow> p);
          limit = (case query_limit q of None \<Rightarrow> 10 | Some l \<Rightarrow> l);
          matching = filter (getAllJobs_query regex q) (jobs s);
          total = int (length matching)
      in if \<not> (regex_ok regex (query_search q) \<and> regex_ok regex (query_location q))
         then Inl InvalidRegex
         else case paginate ((page - 1) * limit) limit
                     (sort_key (\<lambda>j. - job_createdAt j) matching) of
           None \<Rightarrow> Inl NegativeSkip
         | Some found \<Rightarrow>
             Inr \<lparr>page_jobs = map (populate_createdBy s) found,
                  page_totalPages = (if limit = 0 then None else Some (- ((- total) div limit))),
                  page_currentPage = page,
                  page_total = total\<rparr>)"

definition getJobById ::
  "(string \<Rightarrow> 'i option) \<Rightarrow> string \<Rightarrow> 'i db \<Rightarrow> error + 'i job \<times> ('i \<times> string) option" where
  "getJobById cast id_param s =
     (case cast id_param of
        None \<Rightarrow> Inl CastError
      | Some ident \<Rightarrow>
          (case Job_findById s ident of
             None \<Rightarrow> Inl (NotFoundError ''Job not found'')
           | Some j \<Rightarrow> Inr (populate_createdBy s j)))"






definition deleteJob ::
  "(string \<Rightarrow> 'i option) \<Rightarrow> 'i user option \<Rightarrow> string \<Rightarrow> 'i db \<Rightarrow> (string, 'i) result" where
  "deleteJob cast req_user id_param s =
     (case cast id_param of
        None \<Rightarrow> (Inl CastError, s)
      | Some ident \<Rightarrow>
          (case Job_findById s ident of
             None \<Rightarrow> (Inl (NotFoundError ''Job not found''), s)
           | Some j \<Rightarrow>
               if Some (createdBy j) \<noteq> map_option user_id req_user
                  \<and> map_option role req_user \<noteq> Some ''admin''
               then (Inl (AuthorizationError ''Not authorized to delete this job''), s)
               else (Inr ''Job deleted successfully'',
                     s\<lparr>jobs := deleteFirst (\<lambda>d. job_id d = ident) (jobs s),
                       applications :=
                         deleteMany (\<lambda>a. jobId a = ident) (applications s)\<rparr>)))"



section \<open>User deletion (adminController.ts)\<close>

definition deleteUser ::
  "(string \<Rightarrow> 'i option) \<Rightarrow> 'i user option \<Rightarrow> string \<Rightarrow> 'i db \<Rightarrow> (string, 'i) result" where
  "deleteUser cast req_user userId_param s =
     (if map_option role req_user \<noteq> Some ''admin''
      then (Inl (AuthorizationError ''Only admins can delete users''), s)
      else case cast userId_param of
        None \<Rightarrow> (Inl CastError, s)
      | Some userId \<Rightarrow>
          (case User_findById s userId of
             None \<Rightarrow> (Inl (NotFoundError ''User not found''), s)
           | Some u \<Rightarrow>
               if role u = ''admin''
               then (Inl (ValidationError ''Cannot delete admin users'' []), s)
               else
                 let s1 = (if role u = ''employer''
                           then let jobIds =
                                      map job_id (filter (\<lambda>j. createdBy j = userId) (jobs s))
                                in s\<lparr>jobs := deleteMany (\<lambda>j. createdBy j = userId) (jobs s),
                                     applications :=
                                       deleteMany (\<lambda>a. jobId a \<in> set jobIds)
                                         (applications s)\<rparr>
                           else s);
                     s2 = (if role u = ''candidate''
                           then s1\<lparr>applications :=
                                      deleteMany (\<lambda>a. candidateId a = userId)
                                        (applications s1)\<rparr>
                           else s1)
                 in (Inr ''User and associated data deleted successfully'',
                     s2\<lparr>users := deleteFirst (\<lambda>d. user_id d = userId) (users s2)\<rparr>)))"

section \<open>Registration (authController.ts)\<close>

text \<open>
  The body holds three strings, as \<^verbatim>\<open>validateRegistration\<close> passes it on.
  \<^verbatim>\<open>bcrypt.hash\<close> (password, then salt) and \<^verbatim>\<open>jwt.sign\<close> are parameters. The
  response carries the token and the new user's id, email and role.
\<close>

record register_body =
  reg_email :: string
  reg_password :: string
  reg_role :: string

definition register ::
  "(string \<Rightarrow> string \<Rightarrow> string) \<Rightarrow> ('i \<Rightarrow> string) \<Rightarrow> string \<Rightarrow> 'i \<Rightarrow> date \<Rightarrow>
     register_body \<Rightarrow> 'i db \<Rightarrow> (string \<times> 'i \<times> string \<times> string, 'i) result" where
  "register bcrypt_hash jwt_sign salt newId now body s =
     (case findOne (\<lambda>u. email u = reg_email body) (users s) of
        Some existingUser \<Rightarrow> (Inl (ConflictError ''User already exists''), s)
      | None \<Rightarrow>
          (case User_save (new_User newId now (reg_email body)
                             (bcrypt_hash (reg_password body) salt) (reg_role body)) s of
             Inl e \<Rightarrow> (Inl e, s)
           | Inr s' \<Rightarrow> (Inr (jwt_sign newId, newId, reg_email body, reg_role body), s')))"

section \<open>The admin bootstrap (utils/handshake.ts)\<close>

text \<open>
  \<^verbatim>\<open>process.env\<close>, and how a run ends: the promise resolves, or the process exits
  with a code (\<^verbatim>\<open>process.exit(1)\<close>, also from the \<^verbatim>\<open>catch\<close> block when the
  save throws).
\<close>

record environment =
  ADMIN_EMAIL :: "string option"
  ADMIN_PASSWORD :: "string option"

datatype outcome = Resolved | ProcessExit nat

definition handshake ::
  "environment \<Rightarrow> (string \<Rightarrow> string \<Rightarrow> string) \<Rightarrow> string \<Rightarrow> 'i \<Rightarrow> date \<Rightarrow> 'i db \<Rightarrow>
     outcome \<times> 'i db" where
  "handshake env bcrypt_hash salt newId now s =
     (case findOne (\<lambda>u. role u = ''admin'') (users s) of
        Some existingAdmin \<Rightarrow> (Resolved, s)
      | None \<Rightarrow>
          (case (ADMIN_EMAIL env, ADMIN_PASSWORD env) of
             (Some adminEmail, Some adminPassword) \<Rightarrow>
               if adminEmail = [] \<or> adminPassword = [] then (ProcessExit 1, s)
               else (case User_save (new_User newId now adminEmail
                                       (bcrypt_hash adminPassword salt) ''admin'') s of
                       Inl e \<Rightarrow> (ProcessExit 1, s)
                     | Inr s' \<Rightarrow> (Resolved, s'))
           | _ \<Rightarrow> (ProcessExit 1, s)))"

text \<open>
  Startups one after the other, each with the salt, the id and the time of its run; a
  run that exits leaves the store to the next one.
\<close>

fun startups ::
  "environment \<Rightarrow> (string \<Rightarrow> string \<Rightarrow> string) \<Rightarrow> (string \<times> 'i \<times> date) list \<Rightarrow> 'i db \<Rightarrow> 'i db"
  where
  "startups env bcrypt_hash [] s = s"
| "startups env bcrypt_hash ((salt, newId, now) # runs) s =
     startups env bcrypt_hash runs (snd (handshake env bcrypt_hash salt newId now s))"

definition admins :: "'i db \<Rightarrow> 'i user list" where
  "admins s = filter (\<lambda>u. role u = ''admin'') (users s)"

section \<open>Example documents\<close>

text \<open>
  In the examples an ObjectId is its 24 hexadecimal digits in lower case, and the cast is
  the one of a string of 24 hexadecimal digits, which spells the same id in either letter
  case; every other string is refused.
\<close>

definition hex_digit :: "char \<Rightarrow> bool" where
  "hex_digit c = (c \<in> set ''0123456789abcdefABCDEF'')"

definition to_lower :: "char \<Rightarrow> char" where
  "to_lower c = (case map_of (zip ''ABCDEF'' ''abcdef'') c of None \<Rightarrow> c | Some l \<Rightarrow> l)"

definition ex_cast :: "string \<Rightarrow> string option" where
  "ex_cast raw =
     (if length raw = 24 \<and> list_all hex_digit raw then Some (map to_lower raw) else None)"

text \<open>
  Object ids of the examples: users (an admin, two employers, two candidates, a banned
  candidate, and the ids the driver gives to users created in the examples), jobs,
  applications, and an id that no document has. Then the id of job j2 spelled in upper
  case, and a string that spells no id.
\<close>

definition id_a1 :: string where
  "id_a1 = ''60d0fe4f5311236168a109a1''"

definition id_a2 :: string where
  "id_a2 = ''60d0fe4f5311236168a109a2''"

definition id_a3 :: string where
  "id_a3 = ''60d0fe4f5311236168a109a3''"

definition id_e1 :: string where
  "id_e1 = ''60d0fe4f5311236168a109e1''"

definition id_e2 :: string where
  "id_e2 = ''60d0fe4f5311236168a109e2''"

definition id_c1 :: string where
  "id_c1 = ''60d0fe4f5311236168a109c1''"

definition id_c2 :: string where
  "id_c2 = ''60d0fe4f5311236168a109c2''"

definition id_b1 :: string where
  "id_b1 = ''60d0fe4f5311236168a109b1''"

definition id_u9 :: string where
  "id_u9 = ''60d0fe4f5311236168a109a9''"

definition id_j1 :: string where
  "id_j1 = ''60d0fe4f5311236168a10911''"

definition id_j2 :: string where
  "id_j2 = ''60d0fe4f5311236168a10912''"

definition id_j3 :: string where
  "id_j3 = ''60d0fe4f5311236168a10913''"

definition id_p1 :: string where
  "id_p1 = ''60d0fe4f5311236168a10921''"

definition id_p2 :: string where
  "id_p2 = ''60d0fe4f5311236168a10922''"

definition id_p3 :: string where
  "id_p3 = ''60d0fe4f5311236168a10923''"

definition id_p4 :: string where
  "id_p4 = ''60d0fe4f5311236168a10924''"

definition id_p5 :: string where
  "id_p5 = ''60d0fe4f5311236168a10925''"

definition id_p6 :: string where
  "id_p6 = ''60d0fe4f5311236168a10926''"

definition id_none :: string where
  "id_none = ''60d0fe4f5311236168a109ff''"

definition upper_j2 :: string where
  "upper_j2 = ''60D0FE4F5311236168A10912''"

definition not_an_id :: string where
  "not_an_id = ''abc''"

definition mk_user :: "string \<Rightarrow> string \<Rightarrow> string \<Rightarrow> bool \<Rightarrow> string user" where
  "mk_user i e r b =
     \<lparr>user_id = i, email = e, password = ''$2a$10$hash'', firstName = None, lastName = None,
      company = None, role = r, isBanned = b, user_createdAt = 0, user_updatedAt = 0\<rparr>"

definition mk_job :: "string \<Rightarrow> string \<Rightarrow> string \<Rightarrow> date \<Rightarrow> string job" where
  "mk_job i owner st t =
     \<lparr>job_id = i, title = ''Backend Engineer'', description = ''APIs'', companyName = ''Acme'',
      location = ''Dhaka'', jobType = ''full-time'', salaryRange = None, skills = [],
      createdBy = owner, jobStatus = st, job_createdAt = t, job_updatedAt = t\<rparr>"

definition mk_application :: "string \<Rightarrow> string \<Rightarrow> string \<Rightarrow> date \<Rightarrow> string application" where
  "mk_application i j c t =
     \<lparr>app_id = i, jobId = j, candidateId = c, coverLetter = Some ''Dear team'',
      resume = Some ''cv.pdf'', applicationStatus = ''pending'', appliedAt = t,
      app_createdAt = t, app_updatedAt = t\<rparr>"

definition ex_admin :: "string user" where
  "ex_admin = mk_user id_a1 ''root@x.com'' ''admin'' False"

definition ex_employer :: "string user" where
  "ex_employer = mk_user id_e1 ''e@x.com'' ''employer'' False"

definition ex_employer2 :: "string user" where
  "ex_employer2 = mk_user id_e2 ''f@x.com'' ''employer'' False"

definition ex_candidate :: "string user" where
  "ex_candidate = mk_user id_c1 ''c@x.com'' ''candidate'' False"

definition ex_candidate2 :: "string user" where
  "ex_candidate2 = mk_user id_c2 ''d@x.com'' ''candidate'' False"

definition ex_banned :: "string user" where
  "ex_banned = mk_user id_b1 ''b@x.com'' ''candidate'' True"

text \<open>
  A stand-in for \<^verbatim>\<open>jwt.verify\<close>: two tokens verify, one for the banned candidate and
  one for candidate c1, and every other one throws.
\<close>

definition ex_jwt_verify :: "string \<Rightarrow> string option" where
  "ex_jwt_verify token =
     (if token = ''tok.b1'' then Some id_b1
      else if token = ''tok.c1'' then Some id_c1 else None)"

text \<open>
  Employer e1 owns j1 (active, two applications) and j2 (inactive, one application);
  employer e2 owns j3 (active, one application).
\<close>

definition ex_db :: "string db" where
  "ex_db =
     \<lparr>users = [ex_admin, ex_employer, ex_employer2, ex_candidate, ex_candidate2],
      jobs = [mk_job id_j1 id_e1 ''Active'' 10, mk_job id_j2 id_e1 ''Inactive'' 20,
              mk_job id_j3 id_e2 ''Active'' 30],
      applications =
        [mk_application id_p1 id_j1 id_c1 40, mk_application id_p2 id_j1 id_c2 50,
         mk_application id_p3 id_j2 id_c1 60, mk_application id_p4 id_j3 id_c2 70]\<rparr>"




text \<open>A stand-in for the regex engine: one pattern is refused, every other matches all.\<close>

definition ex_regex :: "string \<Rightarrow> (string \<Rightarrow> bool) option" where
  "ex_regex p = (if p = ''('' then None else Some (\<lambda>subject. True))"

definition ex_query :: jobs_query where
  "ex_query =
     \<lparr>query_page = None, query_limit = Some 5, query_search = Some ''engineer'',
      query_location = None, query_jobType = Some ''full-time''\<rparr>"

definition ex_page :: "string jobs_page" where
  "ex_page =
     \<lparr>page_jobs = [(mk_job id_j3 id_e2 ''Active'' 30, Some (id_e2, ''f@x.com'')),
                   (mk_job id_j1 id_e1 ''Active'' 10, Some (id_e1, ''e@x.com''))],
      page_totalPages = Some 1, page_currentPage = 1, page_total = 2\<rparr>"

text \<open>A well-formed body of an application to job \<open>j\<close>, and the data of an
  application that has neither cover letter nor resume.\<close>

definition ex_body :: "string \<Rightarrow> apply_body" where
  "ex_body j = \<lparr>body_jobId = Some j, body_coverLetter = Some ''Dear team'',
                body_resume = Some ''cv.pdf''\<rparr>"

definition ex_data :: "string application_data" where
  "ex_data = \<lparr>data_jobId = Some id_j3, data_candidateId = Some id_c1, data_coverLetter = None,
     data_resume = None, data_applicationStatus = None, data_appliedAt = None\<rparr>"

text \<open>
  An environment whose admin email is already the email of a candidate, one whose admin
  email is free, a stand-in for \<^verbatim>\<open>bcrypt.hash\<close>, and a store with no admin.
\<close>

definition ex_env :: environment where
  "ex_env = \<lparr>ADMIN_EMAIL = Some ''c@x.com'', ADMIN_PASSWORD = Some ''secret123''\<rparr>"

definition ex_env2 :: environment where
  "ex_env2 = \<lparr>ADMIN_EMAIL = Some ''boss@x.com'', ADMIN_PASSWORD = Some ''secret123''\<rparr>"

definition ex_hash :: "string \<Rightarrow> string \<Rightarrow> string" where
  "ex_hash pw salt = ''$2a$10$'' @ salt @ pw"

definition ex_db_no_admin :: "string db" where
  "ex_db_no_admin = ex_db\<lparr>users := [ex_employer, ex_candidate]\<rparr>"

definition ex_jwt_sign :: "string \<Rightarrow> string" where
  "ex_jwt_sign i = ''jwt.'' @ i"

lemmas id_defs =
  id_a1_def id_a2_def id_a3_def id_e1_def id_e2_def id_c1_def
  id_c2_def id_b1_def id_u9_def id_j1_def id_j2_def id_j3_def
  id_p1_def id_p2_def id_p3_def id_p4_def id_p5_def id_p6_def
  id_none_def upper_j2_def not_an_id_def

lemmas ex_defs =
  id_defs
  ex_db_def ex_admin_def ex_employer_def ex_employer2_def ex_candidate_def ex_candidate2_def
  ex_banned_def ex_jwt_verify_def mk_user_def mk_job_def mk_application_def

lemmas query_defs =
  findOne_def deleteMany_def User_findById_def Job_findById_def

section \<open>Facts about the queries and the example cast\<close>

lemma ex_cast_ids:
  "ex_cast id_j1 = Some id_j1" "ex_cast id_j2 = Some id_j2" "ex_cast id_j3 = Some id_j3"
  "ex_cast id_none = Some id_none" "ex_cast id_e1 = Some id_e1" "ex_cast id_c1 = Some id_c1"
  "ex_cast id_b1 = Some id_b1" "ex_cast upper_j2 = Some id_j2" "ex_cast not_an_id = None"
  by (simp_all add: ex_cast_def hex_digit_def to_lower_def id_defs)

lemmas ex_cast_simps = ex_cast_ids [unfolded id_defs]

lemma deleteMany_none_left: "filter q (deleteMany q coll) = []"
  by (induction coll) (simp_all add: deleteMany_def)

lemma deleteMany_weaker_none_left:
  assumes "\<And>d. p d \<Longrightarrow> q d"
  shows "filter p (deleteMany q coll) = []"
  using assms by (induction coll) (auto simp: deleteMany_def)

lemma paginate_subset: "paginate k l ds = Some found \<Longrightarrow> set found \<subseteq> set ds"
  by (auto simp: paginate_def split: if_splits dest: in_set_takeD in_set_dropD)

lemma findOne_None_iff: "findOne q coll = None \<longleftrightarrow> (\<forall>d \<in> set coll. \<not> q d)"
  by (auto simp: findOne_def find_None_iff)

lemma findOne_Some_holds: "findOne q coll = Some d \<Longrightarrow> d \<in> set coll \<and> q d"
  by (auto simp: findOne_def find_Some_iff)

lemma findOne_distinct_key:
  "distinct (map key coll) \<Longrightarrow> d \<in> set coll \<Longrightarrow> findOne (\<lambda>e. key e = key d) coll = Some d"
  by (induction coll) (auto simp: findOne_def)

lemma findOne_pair:
  "(findOne (\<lambda>a. jobId a = jid \<and> Some (candidateId a) = Some c) apps = None)
     = (\<not> (\<exists>a \<in> set apps. jobId a = jid \<and> candidateId a = c))"
  by (auto simp: findOne_def find_None_iff)

lemma route_apply_candidate:
  "role p = ''candidate'' \<Longrightarrow>
   route_apply cast newId now (Some p) body s = applyForJob cast newId now (Some p) body s"
  by (simp add: route_apply_def authorize_def validateApplication_def applyForJob_def)




section \<open>Applying for a job\<close>

text \<open>
  C1, as stated, fails: the handler first requires a job id, a cover letter and a resume,
  and it looks for an earlier application only after the job was found Active. A candidate
  who names a job that does not exist and sends no cover letter gets a
  \<^verbatim>\<open>ValidationError\<close>, not \<^verbatim>\<open>NotFoundError\<close>; a candidate who has
  applied to a job that is Inactive by now gets \<^verbatim>\<open>ValidationError\<close>, not
  \<^verbatim>\<open>ConflictError\<close>.
\<close>

theorem apply_for_job_counterexample:
  "role ex_candidate = ''candidate''
   \<and> ex_cast id_none = Some id_none
   \<and> Job_findById ex_db id_none = None
   \<and> route_apply ex_cast id_p5 80 (Some ex_candidate)
        \<lparr>body_jobId = Some id_none, body_coverLetter = None, body_resume = Some ''cv.pdf''\<rparr> ex_db
       = (Inl (ValidationError ''Cover letter is required'' []), ex_db)
   \<and> ex_cast id_j2 = Some id_j2
   \<and> findOne (\<lambda>a. jobId a = id_j2 \<and> candidateId a = id_c1) (applications ex_db)
       = Some (mk_application id_p3 id_j2 id_c1 60)
   \<and> route_apply ex_cast id_p5 80 (Some ex_candidate) (ex_body id_j2) ex_db
       = (Inl (ValidationError ''Job is not active'' []), ex_db)"
  by (simp add: ex_defs query_defs ex_cast_simps route_apply_def authorize_def
        validateApplication_def applyForJob_def falsy_def ex_body_def)

text \<open>
  C1, amended. Whatever the request, the apply operation changes the store only when the
  job id casts, the job exists, is Active and the candidate has no application to it yet,
  and then it appends one application with status pending and \<^verbatim>\<open>appliedAt\<close> the
  current time. For a candidate: a body whose job id, cover letter or resume is absent or
  empty fails with \<^verbatim>\<open>ValidationError\<close> (\<^verbatim>\<open>Job ID is required\<close>, else
  \<^verbatim>\<open>Cover letter is required\<close>, else \<^verbatim>\<open>Resume is required\<close>) before any
  other check. With all three present: a job id that does not cast gives
  \<^verbatim>\<open>CastError\<close>; no such job gives \<^verbatim>\<open>NotFoundError\<close>; a job that is not
  Active gives \<^verbatim>\<open>ValidationError\<close>; an Active job the candidate has applied to
  gives \<^verbatim>\<open>ConflictError\<close>; otherwise the new application is stored and returned.
  Every failure leaves the store as it was.
\<close>

theorem apply_for_job_checks:
  "(route_apply cast newId now req_user body s = (r, s') \<longrightarrow> s' \<noteq> s \<longrightarrow>
      (\<exists>jid j a. Option.bind (body_jobId body) cast = Some jid
         \<and> Job_findById s jid = Some j \<and> jobStatus j = ''Active''
         \<and> \<not> (\<exists>e \<in> set (applications s). jobId e = jid
                  \<and> Some (candidateId e) = map_option user_id req_user)
         \<and> r = Inr a \<and> s' = s\<lparr>applications := applications s @ [a]\<rparr>
         \<and> applicationStatus a = ''pending'' \<and> appliedAt a = now))
   \<and> (role p = ''candidate'' \<longrightarrow>
        (falsy (body_jobId body) \<or> falsy (body_coverLetter body) \<or> falsy (body_resume body) \<longrightarrow>
           (\<exists>m. route_apply cast newId now (Some p) body s = (Inl (ValidationError m []), s)))
        \<and> (falsy (body_jobId body) \<longrightarrow>
             route_apply cast newId now (Some p) body s
               = (Inl (ValidationError ''Job ID is required'' []), s))
        \<and> (\<not> falsy (body_jobId body) \<longrightarrow> falsy (body_coverLetter body) \<longrightarrow>
             route_apply cast newId now (Some p) body s
               = (Inl (ValidationError ''Cover letter is required'' []), s))
        \<and> (\<not> falsy (body_jobId body) \<longrightarrow> \<not> falsy (body_coverLetter body) \<longrightarrow>
             falsy (body_resume body) \<longrightarrow>
             route_apply cast newId now (Some p) body s
               = (Inl (ValidationError ''Resume is required'' []), s))
        \<and> (body_jobId body = Some raw \<longrightarrow> raw \<noteq> [] \<longrightarrow>
             \<not> falsy (body_coverLetter body) \<longrightarrow> \<not> falsy (body_resume body) \<longrightarrow>
             (cast raw = None \<longrightarrow>
                route_apply cast newId now (Some p) body s = (Inl CastError, s))
             \<and> (cast raw = Some jid \<longrightarrow>
                  (Job_findById s jid = None \<longrightarrow>
                     route_apply cast newId now (Some p) body s
                       = (Inl (NotFoundError ''Job not found''), s))
                  \<and> (Job_findById s jid = Some j \<longrightarrow> jobStatus j \<noteq> ''Active'' \<longrightarrow>
                       route_apply cast newId now (Some p) body s
                         = (Inl (ValidationError ''Job is not active'' []), s))
                  \<and> (Job_findById s jid = Some j \<longrightarrow> jobStatus j = ''Active'' \<longrightarrow>
                       (\<exists>e \<in> set (applications s). jobId e = jid \<and> candidateId e = user_id p) \<longrightarrow>
                       route_apply cast newId now (Some p) body s
                         = (Inl (ConflictError ''Already applied for this job''), s))
                  \<and> (Job_findById s jid = Some j \<longrightarrow> jobStatus j = ''Active'' \<longrightarrow>
                       \<not> (\<exists>e \<in> set (applications s). jobId e = jid
                             \<and> candidateId e = user_id p) \<longrightarrow>
                       route_apply cast newId now (Some p) body s
                         = (Inr \<lparr>app_id = newId, jobId = jid, candidateId = user_id p,
                                 coverLetter = body_coverLetter body,
                                 resume = body_resume body,
                                 applicationStatus = ''pending'', appliedAt = now,
                                 app_createdAt = now, app_updatedAt = now\<rparr>,
                            s\<lparr>applications := applications s @
                                 [\<lparr>app_id = newId, jobId = jid, candidateId = user_id p,
                                   coverLetter = body_coverLetter body,
                                   resume = body_resume body,
                                   applicationStatus = ''pending'', appliedAt = now,
                                   app_createdAt = now, app_updatedAt = now\<rparr>]\<rparr>)))))"
proof (intro conjI impI)
  assume "route_apply cast newId now req_user body s = (r, s')" "s' \<noteq> s"
  then show "\<exists>jid j a. Option.bind (body_jobId body) cast = Some jid
         \<and> Job_findById s jid = Some j \<and> jobStatus j = ''Active''
         \<and> \<not> (\<exists>e \<in> set (applications s). jobId e = jid
                  \<and> Some (candidateId e) = map_option user_id req_user)
         \<and> r = Inr a \<and> s' = s\<lparr>applications := applications s @ [a]\<rparr>
         \<and> applicationStatus a = ''pending'' \<and> appliedAt a = now"
    by (auto simp: route_apply_def applyForJob_def Application_create_def new_Application_def
          ApplicationSchema_unique_def violates_unique_def findOne_def find_None_iff
          split: if_splits option.splits sum.splits prod.splits)
next
  assume c: "role p = ''candidate''"
  note r = route_apply_candidate [OF c]
  { assume "falsy (body_jobId body) \<or> falsy (body_coverLetter body) \<or> falsy (body_resume body)"
    then show "\<exists>m. route_apply cast newId now (Some p) body s = (Inl (ValidationError m []), s)"
      by (auto simp: r applyForJob_def) }
  { assume "falsy (body_jobId body)"
    then show "route_apply cast newId now (Some p) body s
               = (Inl (ValidationError ''Job ID is required'' []), s)"
      by (simp add: r applyForJob_def) }
  { assume "\<not> falsy (body_jobId body)" "falsy (body_coverLetter body)"
    then show "route_apply cast newId now (Some p) body s
               = (Inl (ValidationError ''Cover letter is required'' []), s)"
      by (simp add: r applyForJob_def) }
  { assume "\<not> falsy (body_jobId body)" "\<not> falsy (body_coverLetter body)"
      "falsy (body_resume body)"
    then show "route_apply cast newId now (Some p) body s
               = (Inl (ValidationError ''Resume is required'' []), s)"
      by (simp add: r applyForJob_def) }
  assume h: "body_jobId body = Some raw" "raw \<noteq> []"
    "\<not> falsy (body_coverLetter body)" "\<not> falsy (body_resume body)"
  have pre: "\<not> falsy (body_jobId body)" using h by (simp add: falsy_def)
  { assume "cast raw = None"
    then show "route_apply cast newId now (Some p) body s = (Inl CastError, s)"
      using c h pre by (simp add: r applyForJob_def) }
  assume k: "cast raw = Some jid"
  { assume "Job_findById s jid = None"
    then show "route_apply cast newId now (Some p) body s
               = (Inl (NotFoundError ''Job not found''), s)"
      using c h pre k by (simp add: r applyForJob_def) }
  { assume "Job_findById s jid = Some j" "jobStatus j \<noteq> ''Active''"
    then show "route_apply cast newId now (Some p) body s
               = (Inl (ValidationError ''Job is not active'' []), s)"
      using c h pre k by (simp add: r applyForJob_def) }
  { assume j: "Job_findById s jid = Some j" "jobStatus j = ''Active''"
      and ex: "\<exists>e \<in> set (applications s). jobId e = jid \<and> candidateId e = user_id p"
    from ex have "findOne (\<lambda>a. jobId a = jid \<and> Some (candidateId a) = Some (user_id p))
                    (applications s) \<noteq> None"
      by (simp only: findOne_pair) simp
    then show "route_apply cast newId now (Some p) body s
               = (Inl (ConflictError ''Already applied for this job''), s)"
      using c h pre k j by (auto simp: r applyForJob_def) }
  { assume j: "Job_findById s jid = Some j" "jobStatus j = ''Active''"
      and nex: "\<not> (\<exists>e \<in> set (applications s). jobId e = jid \<and> candidateId e = user_id p)"
    from nex have "findOne (\<lambda>a. jobId a = jid \<and> Some (candidateId a) = Some (user_id p))
                    (applications s) = None"
      by (simp only: findOne_pair) simp
    then show "route_apply cast newId now (Some p) body s
               = (Inr \<lparr>app_id = newId, jobId = jid, candidateId = user_id p,
                       coverLetter = body_coverLetter body,
                       resume = body_resume body,
                       applicationStatus = ''pending'', appliedAt = now,
                       app_createdAt = now, app_updatedAt = now\<rparr>,
                  s\<lparr>applications := applications s @
                       [\<lparr>app_id = newId, jobId = jid, candidateId = user_id p,
                         coverLetter = body_coverLetter body,
                         resume = body_resume body,
                         applicationStatus = ''pending'', appliedAt = now,
                         app_createdAt = now, app_updatedAt = now\<rparr>]\<rparr>)"
      using c h pre k j
      by (simp add: r applyForJob_def Application_create_def new_Application_def
            ApplicationSchema_unique_def violates_unique_def) }
qed

theorem apply_for_job_checks_witness:
  "role ex_candidate = ''candidate''
   \<and> falsy None \<and> \<not> falsy (Some id_j3) \<and> \<not> falsy (Some ''Dear team'') \<and> \<not> falsy (Some ''cv.pdf'')
   \<and> route_apply ex_cast id_p5 80 (Some ex_candidate)
        \<lparr>body_jobId = None, body_coverLetter = None, body_resume = None\<rparr> ex_db
       = (Inl (ValidationError ''Job ID is required'' []), ex_db)
   \<and> route_apply ex_cast id_p5 80 (Some ex_candidate)
        \<lparr>body_jobId = Some id_j3, body_coverLetter = None, body_resume = None\<rparr> ex_db
       = (Inl (ValidationError ''Cover letter is required'' []), ex_db)
   \<and> route_apply ex_cast id_p5 80 (Some ex_candidate)
        \<lparr>body_jobId = Some id_j3, body_coverLetter = Some ''Dear team'', body_resume = None\<rparr>
        ex_db
       = (Inl (ValidationError ''Resume is required'' []), ex_db)
   \<and> ex_cast not_an_id = None
   \<and> route_apply ex_cast id_p5 80 (Some ex_candidate) (ex_body not_an_id) ex_db
       = (Inl CastError, ex_db)
   \<and> ex_cast id_none = Some id_none \<and> Job_findById ex_db id_none = None
   \<and> route_apply ex_cast id_p5 80 (Some ex_candidate) (ex_body id_none) ex_db
       = (Inl (NotFoundError ''Job not found''), ex_db)
   \<and> ex_cast upper_j2 = Some id_j2
   \<and> Job_findById ex_db id_j2 = Some (mk_job id_j2 id_e1 ''Inactive'' 20)
   \<and> route_apply ex_cast id_p5 80 (Some ex_candidate) (ex_body upper_j2) ex_db
       = (Inl (ValidationError ''Job is not active'' []), ex_db)
   \<and> ex_cast id_j1 = Some id_j1
   \<and> Job_findById ex_db id_j1 = Some (mk_job id_j1 id_e1 ''Active'' 10)
   \<and> list_ex (\<lambda>e. jobId e = id_j1 \<and> candidateId e = id_c1) (applications ex_db)
   \<and> route_apply ex_cast id_p5 80 (Some ex_candidate) (ex_body id_j1) ex_db
       = (Inl (ConflictError ''Already applied for this job''), ex_db)
   \<and> ex_cast id_j3 = Some id_j3
   \<and> Job_findById ex_db id_j3 = Some (mk_job id_j3 id_e2 ''Active'' 30)
   \<and> \<not> list_ex (\<lambda>e. jobId e = id_j3 \<and> candidateId e = id_c1) (applications ex_db)
   \<and> route_apply ex_cast id_p5 80 (Some ex_candidate) (ex_body id_j3) ex_db
       = (Inr (mk_application id_p5 id_j3 id_c1 80),
          ex_db\<lparr>applications := applications ex_db @ [mk_application id_p5 id_j3 id_c1 80]\<rparr>)"
  using apply_for_job_checks
          [of ex_cast id_p5 80 "Some ex_candidate" "ex_body id_j3" ex_db
              "Inr (mk_application id_p5 id_j3 id_c1 80)"
              "ex_db\<lparr>applications := applications ex_db @ [mk_application id_p5 id_j3 id_c1 80]\<rparr>"
              ex_candidate id_j3 id_j3 "mk_job id_j3 id_e2 ''Active'' 30"]
        apply_for_job_checks
          [of ex_cast id_p5 80 "Some ex_candidate" "ex_body id_j1" ex_db
              "Inl (ConflictError ''Already applied for this job'')" ex_db
              ex_candidate id_j1 id_j1 "mk_job id_j1 id_e1 ''Active'' 10"]
        apply_for_job_checks
          [of ex_cast id_p5 80 "Some ex_candidate" "ex_body upper_j2" ex_db
              "Inl (ValidationError ''Job is not active'' [])" ex_db
              ex_candidate upper_j2 id_j2 "mk_job id_j2 id_e1 ''Inactive'' 20"]
        apply_for_job_checks
          [of ex_cast id_p5 80 "Some ex_candidate" "ex_body id_none" ex_db
              "Inl (NotFoundError ''Job not found'')" ex_db ex_candidate id_none id_none]
        apply_for_job_checks
          [of ex_cast id_p5 80 "Some ex_candidate" "ex_body not_an_id" ex_db
              "Inl CastError" ex_db ex_candidate not_an_id]
        apply_for_job_checks
          [of ex_cast id_p5 80 "Some ex_candidate"
              "\<lparr>body_jobId = None, body_coverLetter = None, body_resume = None\<rparr>" ex_db
              "Inl (ValidationError ''Job ID is required'' [])" ex_db ex_candidate]
  by (simp add: ex_defs query_defs ex_cast_simps ex_body_def falsy_def route_apply_def
        authorize_def validateApplication_def applyForJob_def Application_create_def
        new_Application_def ApplicationSchema_unique_def violates_unique_def)

section \<open>Uniqueness of applications\<close>

text \<open>
  C2. \<^verbatim>\<open>ApplicationSchema\<close> declares no unique index, so the store takes a second
  application of the same candidate to the same job from any insert that does not run the
  \<^verbatim>\<open>findOne\<close> check of \<^verbatim>\<open>applyForJob\<close> first: here
  \<^verbatim>\<open>ApplicationService.createApplication\<close>, twice with the same data.
\<close>

theorem duplicate_application_stored:
  "ApplicationSchema_unique = []
   \<and> createApplication id_p5 80 ex_data ex_db
       = (Inr ((mk_application id_p5 id_j3 id_c1 80)\<lparr>coverLetter := None, resume := None\<rparr>),
          ex_db\<lparr>applications := applications ex_db @
             [(mk_application id_p5 id_j3 id_c1 80)\<lparr>coverLetter := None, resume := None\<rparr>]\<rparr>)
   \<and> createApplication id_p6 81 ex_data
        (ex_db\<lparr>applications := applications ex_db @
             [(mk_application id_p5 id_j3 id_c1 80)\<lparr>coverLetter := None, resume := None\<rparr>]\<rparr>)
       = (Inr ((mk_application id_p6 id_j3 id_c1 81)\<lparr>coverLetter := None, resume := None\<rparr>),
          ex_db\<lparr>applications := applications ex_db @
             [(mk_application id_p5 id_j3 id_c1 80)\<lparr>coverLetter := None, resume := None\<rparr>,
              (mk_application id_p6 id_j3 id_c1 81)\<lparr>coverLetter := None, resume := None\<rparr>]\<rparr>)"
  by (simp add: ex_defs ex_data_def createApplication_def Application_create_def
        new_Application_def ApplicationSchema_unique_def violates_unique_def)

section \<open>Cascade deletion\<close>

text \<open>
  C3. After a successful \<^verbatim>\<open>deleteJob\<close> no application refers to the deleted job.
  After a successful \<^verbatim>\<open>deleteUser\<close> of an employer no job has the deleted id as
  \<^verbatim>\<open>createdBy\<close>, and no application refers to any job the employer owned before.
  The deleted job and the deleted user are the ones the path parameter casts to.
\<close>

theorem cascade_delete_integrity:
  "(deleteJob cast req_user id_param s = (Inr m, s') \<longrightarrow>
      (\<exists>ident. cast id_param = Some ident
         \<and> filter (\<lambda>a. jobId a = ident) (applications s') = []))
   \<and> (deleteUser cast req_user userId_param s = (Inr m', s'') \<longrightarrow>
        (\<exists>userId u. cast userId_param = Some userId \<and> User_findById s userId = Some u
           \<and> (role u = ''employer'' \<longrightarrow>
                filter (\<lambda>j. createdBy j = userId) (jobs s'') = []
                \<and> (\<forall>j \<in> set (jobs s). createdBy j = userId \<longrightarrow>
                      filter (\<lambda>a. jobId a = job_id j) (applications s'') = []))))"
proof (intro conjI impI)
  assume "deleteJob cast req_user id_param s = (Inr m, s')"
  then obtain ident where i: "cast id_param = Some ident"
    and "applications s' = deleteMany (\<lambda>a. jobId a = ident) (applications s)"
    by (auto simp: deleteJob_def split: option.splits if_splits)
  then show "\<exists>ident. cast id_param = Some ident
         \<and> filter (\<lambda>a. jobId a = ident) (applications s') = []"
    by (simp add: deleteMany_none_left)
next
  assume del: "deleteUser cast req_user userId_param s = (Inr m', s'')"
  then obtain userId u where c: "cast userId_param = Some userId"
    and u: "User_findById s userId = Some u"
    by (auto simp: deleteUser_def split: option.splits if_splits)
  let ?ids = "map job_id (filter (\<lambda>j. createdBy j = userId) (jobs s))"
  have emp: "filter (\<lambda>j. createdBy j = userId) (jobs s'') = []
             \<and> (\<forall>j \<in> set (jobs s). createdBy j = userId \<longrightarrow>
                   filter (\<lambda>a. jobId a = job_id j) (applications s'') = [])"
    if r: "role u = ''employer''"
  proof -
    from del c u r have js: "jobs s'' = deleteMany (\<lambda>j. createdBy j = userId) (jobs s)"
      and as: "applications s'' = deleteMany (\<lambda>a. jobId a \<in> set ?ids) (applications s)"
      by (auto simp: deleteUser_def Let_def split: if_splits)
    have "filter (\<lambda>a. jobId a = job_id j) (applications s'') = []"
      if "j \<in> set (jobs s)" "createdBy j = userId" for j
    proof -
      from that have "job_id j \<in> set ?ids" by auto
      then show ?thesis
        unfolding as by (intro deleteMany_weaker_none_left) simp
    qed
    then show ?thesis by (simp add: js deleteMany_none_left)
  qed
  show "\<exists>userId u. cast userId_param = Some userId \<and> User_findById s userId = Some u
           \<and> (role u = ''employer'' \<longrightarrow>
                filter (\<lambda>j. createdBy j = userId) (jobs s'') = []
                \<and> (\<forall>j \<in> set (jobs s). createdBy j = userId \<longrightarrow>
                      filter (\<lambda>a. jobId a = job_id j) (applications s'') = []))"
    using c u emp by blast
qed

theorem cascade_delete_integrity_witness:
  "deleteJob ex_cast (Some ex_admin) id_j1 ex_db =
     (Inr ''Job deleted successfully'',
      ex_db\<lparr>jobs := [mk_job id_j2 id_e1 ''Inactive'' 20, mk_job id_j3 id_e2 ''Active'' 30],
            applications := [mk_application id_p3 id_j2 id_c1 60,
                             mk_application id_p4 id_j3 id_c2 70]\<rparr>)
   \<and> ex_cast id_j1 = Some id_j1
   \<and> deleteUser ex_cast (Some ex_admin) id_e1 ex_db =
       (Inr ''User and associated data deleted successfully'',
        \<lparr>users = [ex_admin, ex_employer2, ex_candidate, ex_candidate2],
         jobs = [mk_job id_j3 id_e2 ''Active'' 30],
         applications = [mk_application id_p4 id_j3 id_c2 70]\<rparr>)
   \<and> ex_cast id_e1 = Some id_e1
   \<and> User_findById ex_db id_e1 = Some ex_employer
   \<and> role ex_employer = ''employer''
   \<and> filter (\<lambda>a. jobId a = id_j1) [mk_application id_p3 id_j2 id_c1 60,
                                       mk_application id_p4 id_j3 id_c2 70] = []
   \<and> filter (\<lambda>j. createdBy j = id_e1) [mk_job id_j3 id_e2 ''Active'' 30] = []
   \<and> filter (\<lambda>a. jobId a = id_j2) [mk_application id_p4 id_j3 id_c2 70] = []"
  using cascade_delete_integrity
    [of ex_cast "Some ex_admin" id_j1 ex_db "''Job deleted successfully''"
        "ex_db\<lparr>jobs := [mk_job id_j2 id_e1 ''Inactive'' 20, mk_job id_j3 id_e2 ''Active'' 30],
              applications := [mk_application id_p3 id_j2 id_c1 60,
                               mk_application id_p4 id_j3 id_c2 70]\<rparr>"
        id_e1 "''User and associated data deleted successfully''"
        "\<lparr>users = [ex_admin, ex_employer2, ex_candidate, ex_candidate2],
          jobs = [mk_job id_j3 id_e2 ''Active'' 30],
          applications = [mk_application id_p4 id_j3 id_c2 70]\<rparr>"]
  by (simp add: ex_defs query_defs ex_cast_simps deleteJob_def deleteUser_def)

section \<open>The identity resolver\<close>

text \<open>
  C4. \<^verbatim>\<open>authenticate\<close> never attaches a banned user to the request, whatever the
  header, whatever \<^verbatim>\<open>jwt.verify\<close> accepts and whatever the cast. When the token
  of the header verifies and its \<^verbatim>\<open>userId\<close> casts to the id of a stored user whose
  \<^verbatim>\<open>isBanned\<close> flag is set, the resolver fails with an
  \<^verbatim>\<open>AuthenticationError\<close>; for a non-empty token its message is
  \<^verbatim>\<open>User is banned.\<close>
\<close>

theorem authenticate_rejects_banned:
  "(authenticate cast jwt_verify authorization s = Inr p \<longrightarrow> \<not> isBanned p)
   \<and> (User_findById s userId = Some u \<longrightarrow> isBanned u \<longrightarrow>
        Option.bind (Option.bind (bearer_token authorization) jwt_verify) cast = Some userId \<longrightarrow>
          (\<exists>m. authenticate cast jwt_verify authorization s = Inl (AuthenticationError m))
          \<and> (\<not> falsy (bearer_token authorization) \<longrightarrow>
               authenticate cast jwt_verify authorization s =
                 Inl (AuthenticationError ''User is banned.'')))"
  by (auto simp: authenticate_def Let_def split: if_splits option.splits)

theorem authenticate_rejects_banned_witness:
  "User_findById (ex_db\<lparr>users := users ex_db @ [ex_banned]\<rparr>) id_b1 = Some ex_banned
   \<and> isBanned ex_banned
   \<and> Option.bind (Option.bind (bearer_token (Some ''Bearer tok.b1'')) ex_jwt_verify) ex_cast
       = Some id_b1
   \<and> \<not> falsy (bearer_token (Some ''Bearer tok.b1''))
   \<and> authenticate ex_cast ex_jwt_verify (Some ''Bearer tok.b1'')
         (ex_db\<lparr>users := users ex_db @ [ex_banned]\<rparr>)
       = Inl (AuthenticationError ''User is banned.'')
   \<and> authenticate ex_cast ex_jwt_verify (Some ''Bearer tok.c1'')
         (ex_db\<lparr>users := users ex_db @ [ex_banned]\<rparr>)
       = Inr ex_candidate
   \<and> \<not> isBanned ex_candidate"
  using authenticate_rejects_banned
          [of ex_cast ex_jwt_verify "Some ''Bearer tok.b1''"
              "ex_db\<lparr>users := users ex_db @ [ex_banned]\<rparr>" ex_candidate id_b1 ex_banned]
        authenticate_rejects_banned
          [of ex_cast ex_jwt_verify "Some ''Bearer tok.c1''"
              "ex_db\<lparr>users := users ex_db @ [ex_banned]\<rparr>" ex_candidate id_b1 ex_banned]
  by (simp add: ex_defs query_defs ex_cast_simps authenticate_def bearer_token_def falsy_def)

section \<open>The ownership gate of job update and job deletion\<close>




section \<open>The admin bootstrap\<close>

lemma findOne_admin_None: "(findOne (\<lambda>u. role u = ''admin'') (users s) = None) = (admins s = [])"
  by (auto simp: findOne_def admins_def find_None_iff filter_empty_conv)

lemma handshake_admin_exists:
  "admins s \<noteq> [] \<Longrightarrow> handshake env h salt newId now s = (Resolved, s)"
  using findOne_admin_None [of s] by (auto simp: handshake_def split: option.splits)

lemma startups_admin_exists: "admins s \<noteq> [] \<Longrightarrow> startups env h runs s = s"
  by (induction runs arbitrary: s) (auto simp: handshake_admin_exists)

lemma handshake_cases:
  "snd (handshake env h salt newId now s) = s
   \<or> (admins s = [] \<and> (\<exists>e p. snd (handshake env h salt newId now s)
          = s\<lparr>users := users s @ [new_User newId now e p ''admin'']\<rparr>))"
  using findOne_admin_None [of s]
  by (auto simp: handshake_def User_save_def split: option.splits if_splits)

lemma admins_append_admin:
  "admins (s\<lparr>users := users s @ [new_User newId now e p ''admin'']\<rparr>)
     = admins s @ [new_User newId now e p ''admin'']"
  by (simp add: admins_def new_User_def)

lemma handshake_at_most_one:
  "length (admins s) \<le> Suc 0 \<Longrightarrow>
     length (admins (snd (handshake env h salt newId now s))) \<le> Suc 0"
  using handshake_cases [of env h salt newId now s]
  by (auto simp: admins_append_admin)

lemma startups_at_most_one:
  "length (admins s) \<le> Suc 0 \<Longrightarrow> length (admins (startups env h runs s)) \<le> Suc 0"
  by (induction runs arbitrary: s) (auto simp: handshake_at_most_one)

lemma handshake_creates:
  assumes "admins s = []" "ADMIN_EMAIL env = Some e" "ADMIN_PASSWORD env = Some pw"
    "e \<noteq> []" "pw \<noteq> []" "h pw salt \<noteq> []" "\<forall>u \<in> set (users s). email u \<noteq> e"
  shows "handshake env h salt newId now s
           = (Resolved, s\<lparr>users := users s @ [new_User newId now e (h pw salt) ''admin'']\<rparr>)"
  using assms findOne_admin_None [of s]
  by (auto simp: handshake_def User_save_def UserSchema_valid_def UserSchema_unique_def
        violates_unique_def new_User_def list_ex_iff)

lemma handshake_exits:
  assumes "admins s = []"
    "falsy (ADMIN_EMAIL env) \<or> falsy (ADMIN_PASSWORD env)
       \<or> (\<exists>u \<in> set (users s). Some (email u) = ADMIN_EMAIL env)"
  shows "handshake env h salt newId now s = (ProcessExit 1, s)"
  using assms findOne_admin_None [of s]
  by (auto simp: handshake_def User_save_def UserSchema_valid_def UserSchema_unique_def
        violates_unique_def new_User_def list_ex_iff falsy_def split: option.splits)

text \<open>
  C6, as stated, fails: from a store with no admin in which a candidate already has the
  email of \<^verbatim>\<open>ADMIN_EMAIL\<close>, the save is refused by the unique index on
  \<^verbatim>\<open>email\<close>, the \<^verbatim>\<open>catch\<close> block exits the process, and after any
  number of startups there is still no admin.
\<close>

theorem handshake_counterexample:
  "admins ex_db_no_admin = []
   \<and> ADMIN_EMAIL ex_env = Some ''c@x.com'' \<and> ADMIN_PASSWORD ex_env = Some ''secret123''
   \<and> ex_candidate \<in> set (users ex_db_no_admin) \<and> email ex_candidate = ''c@x.com''
   \<and> handshake ex_env ex_hash ''salt1'' id_a2 5 ex_db_no_admin = (ProcessExit 1, ex_db_no_admin)
   \<and> admins (startups ex_env ex_hash [(''salt1'', id_a2, 5), (''salt2'', id_a3, 6)] ex_db_no_admin)
       = []"
  by (simp add: ex_defs ex_env_def ex_hash_def ex_db_no_admin_def admins_def handshake_def
        findOne_def User_save_def UserSchema_valid_def UserSchema_unique_def violates_unique_def
        new_User_def)

text \<open>
  C6, amended. When an admin exists, a run of \<^verbatim>\<open>handshake\<close> resolves and any
  number of startups leave the store as it was. From a store with no admin, any number of
  startups leave at most one admin. With both credentials set and non-empty, a non-empty
  hash and no stored user with the admin email, the first startup appends exactly one
  user, the admin made from the credentials, and every later startup changes nothing.
  With a credential missing or empty, or the admin email taken, a run from a store with
  no admin exits with code 1 and changes nothing.
\<close>

theorem handshake_idempotent:
  "(admins s \<noteq> [] \<longrightarrow>
      handshake env h salt newId now s = (Resolved, s) \<and> startups env h runs s = s)
   \<and> (admins s = [] \<longrightarrow> length (admins (startups env h runs s)) \<le> 1)
   \<and> (admins s = [] \<longrightarrow> ADMIN_EMAIL env = Some e \<longrightarrow> ADMIN_PASSWORD env = Some pw \<longrightarrow>
        e \<noteq> [] \<longrightarrow> pw \<noteq> [] \<longrightarrow> h pw salt \<noteq> [] \<longrightarrow> (\<forall>u \<in> set (users s). email u \<noteq> e) \<longrightarrow>
        startups env h ((salt, newId, now) # runs) s
          = s\<lparr>users := users s @ [new_User newId now e (h pw salt) ''admin'']\<rparr>
        \<and> admins (startups env h ((salt, newId, now) # runs) s)
          = [new_User newId now e (h pw salt) ''admin''])
   \<and> (admins s = [] \<longrightarrow>
        falsy (ADMIN_EMAIL env) \<or> falsy (ADMIN_PASSWORD env)
          \<or> (\<exists>u \<in> set (users s). Some (email u) = ADMIN_EMAIL env) \<longrightarrow>
        handshake env h salt newId now s = (ProcessExit 1, s))"
proof (intro conjI impI)
  assume "admins s \<noteq> []"
  then show "handshake env h salt newId now s = (Resolved, s)" "startups env h runs s = s"
    by (simp_all add: handshake_admin_exists startups_admin_exists)
next
  assume "admins s = []"
  then show "length (admins (startups env h runs s)) \<le> 1"
    by (simp add: startups_at_most_one)
next
  assume a: "admins s = []" "ADMIN_EMAIL env = Some e" "ADMIN_PASSWORD env = Some pw"
    "e \<noteq> []" "pw \<noteq> []" "h pw salt \<noteq> []" "\<forall>u \<in> set (users s). email u \<noteq> e"
  let ?s' = "s\<lparr>users := users s @ [new_User newId now e (h pw salt) ''admin'']\<rparr>"
  have one: "admins ?s' = [new_User newId now e (h pw salt) ''admin'']"
    using a(1) by (simp add: admins_append_admin)
  then have "admins ?s' \<noteq> []" by simp
  then have "startups env h runs ?s' = ?s'" by (rule startups_admin_exists)
  then show st: "startups env h ((salt, newId, now) # runs) s = ?s'"
    using handshake_creates [of s env e pw h salt newId now] a by simp
  show "admins (startups env h ((salt, newId, now) # runs) s)
          = [new_User newId now e (h pw salt) ''admin'']"
    by (simp only: st one)
next
  assume "admins s = []"
    "falsy (ADMIN_EMAIL env) \<or> falsy (ADMIN_PASSWORD env)
       \<or> (\<exists>u \<in> set (users s). Some (email u) = ADMIN_EMAIL env)"
  then show "handshake env h salt newId now s = (ProcessExit 1, s)"
    by (rule handshake_exits)
qed

theorem handshake_idempotent_witness:
  "admins ex_db \<noteq> []
   \<and> handshake ex_env2 ex_hash ''salt1'' id_a2 5 ex_db = (Resolved, ex_db)
   \<and> startups ex_env2 ex_hash [(''salt1'', id_a2, 5), (''salt2'', id_a3, 6)] ex_db = ex_db
   \<and> admins ex_db_no_admin = []
   \<and> ex_hash ''secret123'' ''salt1'' \<noteq> []
   \<and> list_all (\<lambda>u. email u \<noteq> ''boss@x.com'') (users ex_db_no_admin)
   \<and> startups ex_env2 ex_hash [(''salt1'', id_a2, 5), (''salt2'', id_a3, 6)] ex_db_no_admin
       = ex_db_no_admin\<lparr>users := users ex_db_no_admin @
           [new_User id_a2 5 ''boss@x.com'' (ex_hash ''secret123'' ''salt1'') ''admin'']\<rparr>
   \<and> admins (startups ex_env2 ex_hash [(''salt1'', id_a2, 5), (''salt2'', id_a3, 6)] ex_db_no_admin)
       = [new_User id_a2 5 ''boss@x.com'' (ex_hash ''secret123'' ''salt1'') ''admin'']
   \<and> list_ex (\<lambda>u. Some (email u) = ADMIN_EMAIL ex_env) (users ex_db_no_admin)
   \<and> handshake ex_env ex_hash ''salt1'' id_a2 5 ex_db_no_admin = (ProcessExit 1, ex_db_no_admin)"
  using handshake_idempotent
          [of ex_db ex_env2 ex_hash "''salt1''" id_a2 5
              "[(''salt1'', id_a2, 5), (''salt2'', id_a3, 6)]" "''boss@x.com''" "''secret123''"]
        handshake_idempotent
          [of ex_db_no_admin ex_env2 ex_hash "''salt1''" id_a2 5
              "[(''salt2'', id_a3, 6)]" "''boss@x.com''" "''secret123''"]
        handshake_idempotent
          [of ex_db_no_admin ex_env ex_hash "''salt1''" id_a2 5
              "[(''salt2'', id_a3, 6)]" "''c@x.com''" "''secret123''"]
  by (simp add: ex_defs ex_env_def ex_env2_def ex_hash_def ex_db_no_admin_def admins_def
        handshake_def findOne_def User_save_def UserSchema_valid_def UserSchema_unique_def
        violates_unique_def new_User_def)

section \<open>Uniqueness of emails\<close>

text \<open>
  C7. \<^verbatim>\<open>register\<close> looks the email up as it was sent, and the unique index compares
  emails as they are stored: an email that is stored already is refused whatever the role
  asked for, and the same email in another letter case is registered as a new user.
\<close>

theorem register_email_case_sensitive:
  "register ex_hash ex_jwt_sign ''salt1'' id_u9 90
       \<lparr>reg_email = ''c@x.com'', reg_password = ''secret1'', reg_role = ''employer''\<rparr> ex_db
     = (Inl (ConflictError ''User already exists''), ex_db)
   \<and> register ex_hash ex_jwt_sign ''salt1'' id_u9 90
       \<lparr>reg_email = ''C@x.com'', reg_password = ''secret1'', reg_role = ''employer''\<rparr> ex_db
     = (Inr (''jwt.'' @ id_u9, id_u9, ''C@x.com'', ''employer''),
        ex_db\<lparr>users := users ex_db @
           [new_User id_u9 90 ''C@x.com'' (ex_hash ''secret1'' ''salt1'') ''employer'']\<rparr>)"
  by (simp add: ex_defs ex_hash_def ex_jwt_sign_def register_def findOne_def User_save_def
        UserSchema_valid_def UserSchema_unique_def violates_unique_def new_User_def)

section \<open>Cover letter and resume\<close>

text \<open>
  C8, as stated, fails: a candidate admitted by the role gate who applies to an Active job
  for the first time without a cover letter, or without a resume, gets a
  \<^verbatim>\<open>ValidationError\<close> and nothing is stored.
\<close>

theorem optional_fields_counterexample:
  "authorize [''candidate''] (Some ex_candidate) = Inr ()
   \<and> ex_cast id_j3 = Some id_j3
   \<and> Job_findById ex_db id_j3 = Some (mk_job id_j3 id_e2 ''Active'' 30)
   \<and> jobStatus (mk_job id_j3 id_e2 ''Active'' 30) = ''Active''
   \<and> \<not> list_ex (\<lambda>e. jobId e = id_j3 \<and> candidateId e = id_c1) (applications ex_db)
   \<and> route_apply ex_cast id_p5 80 (Some ex_candidate)
        \<lparr>body_jobId = Some id_j3, body_coverLetter = None, body_resume = Some ''cv.pdf''\<rparr> ex_db
       = (Inl (ValidationError ''Cover letter is required'' []), ex_db)
   \<and> route_apply ex_cast id_p5 80 (Some ex_candidate)
        \<lparr>body_jobId = Some id_j3, body_coverLetter = Some ''Dear team'', body_resume = None\<rparr> ex_db
       = (Inl (ValidationError ''Resume is required'' []), ex_db)"
  by (simp add: ex_defs query_defs ex_cast_simps route_apply_def validateApplication_def
        applyForJob_def falsy_def authorize_def)

text \<open>
  C8, amended. The apply operation requires both fields. For a candidate whose body has a
  job id: no (or an empty) cover letter fails with \<^verbatim>\<open>Cover letter is required\<close>;
  no (or an empty) resume fails with a \<^verbatim>\<open>ValidationError\<close> too, which is
  \<^verbatim>\<open>Resume is required\<close> when there is a cover letter; the store is unchanged. An
  application the operation creates has both, as sent. The schema requires neither:
  \<^verbatim>\<open>ApplicationService.createApplication\<close>, given a job, a candidate and no status,
  stores an application with the cover letter and the resume it was given, or without.
\<close>

theorem apply_requires_cover_letter_and_resume:
  "(role p = ''candidate'' \<longrightarrow>
      (\<not> falsy (body_jobId body) \<longrightarrow> falsy (body_coverLetter body) \<longrightarrow>
         route_apply cast newId now (Some p) body s
           = (Inl (ValidationError ''Cover letter is required'' []), s))
      \<and> (\<not> falsy (body_jobId body) \<longrightarrow> falsy (body_resume body) \<longrightarrow>
           (\<exists>m. route_apply cast newId now (Some p) body s = (Inl (ValidationError m []), s)))
      \<and> (\<not> falsy (body_jobId body) \<longrightarrow> \<not> falsy (body_coverLetter body) \<longrightarrow>
           falsy (body_resume body) \<longrightarrow>
           route_apply cast newId now (Some p) body s
             = (Inl (ValidationError ''Resume is required'' []), s))
      \<and> (route_apply cast newId now (Some p) body s = (Inr a, s') \<longrightarrow>
           \<not> falsy (body_coverLetter body) \<and> \<not> falsy (body_resume body)
           \<and> coverLetter a = body_coverLetter body \<and> resume a = body_resume body))
   \<and> (data_jobId d = Some j \<longrightarrow> data_candidateId d = Some c \<longrightarrow>
        data_applicationStatus d = None \<longrightarrow>
        (\<exists>a. createApplication newId now d s = (Inr a, s\<lparr>applications := applications s @ [a]\<rparr>)
             \<and> coverLetter a = data_coverLetter d \<and> resume a = data_resume d))"
proof (intro conjI impI)
  assume "data_jobId d = Some j" "data_candidateId d = Some c" "data_applicationStatus d = None"
  then show "\<exists>a. createApplication newId now d s
                   = (Inr a, s\<lparr>applications := applications s @ [a]\<rparr>)
               \<and> coverLetter a = data_coverLetter d \<and> resume a = data_resume d"
    by (simp add: createApplication_def Application_create_def new_Application_def
          ApplicationSchema_unique_def violates_unique_def)
next
  assume c: "role p = ''candidate''"
  note r = route_apply_candidate [OF c]
  { assume "\<not> falsy (body_jobId body)" "falsy (body_coverLetter body)"
    then show "route_apply cast newId now (Some p) body s
           = (Inl (ValidationError ''Cover letter is required'' []), s)"
      by (simp add: r applyForJob_def) }
  { assume "\<not> falsy (body_jobId body)" "falsy (body_resume body)"
    then show "\<exists>m. route_apply cast newId now (Some p) body s
                      = (Inl (ValidationError m []), s)"
      by (simp add: r applyForJob_def) }
  { assume "\<not> falsy (body_jobId body)" "\<not> falsy (body_coverLetter body)"
      "falsy (body_resume body)"
    then show "route_apply cast newId now (Some p) body s
             = (Inl (ValidationError ''Resume is required'' []), s)"
      by (simp add: r applyForJob_def) }
  assume ok: "route_apply cast newId now (Some p) body s = (Inr a, s')"
  then show "\<not> falsy (body_coverLetter body)" "\<not> falsy (body_resume body)"
    "coverLetter a = body_coverLetter body" "resume a = body_resume body"
    by (auto simp: r applyForJob_def Application_create_def new_Application_def
          ApplicationSchema_unique_def violates_unique_def
          split: if_splits option.splits sum.splits prod.splits)
qed

theorem apply_requires_cover_letter_and_resume_witness:
  "role ex_candidate = ''candidate''
   \<and> \<not> falsy (Some id_j3) \<and> falsy None \<and> \<not> falsy (Some ''Dear team'')
   \<and> route_apply ex_cast id_p5 80 (Some ex_candidate)
        \<lparr>body_jobId = Some id_j3, body_coverLetter = None, body_resume = None\<rparr> ex_db
       = (Inl (ValidationError ''Cover letter is required'' []), ex_db)
   \<and> route_apply ex_cast id_p5 80 (Some ex_candidate)
        \<lparr>body_jobId = Some id_j3, body_coverLetter = Some ''Dear team'', body_resume = None\<rparr> ex_db
       = (Inl (ValidationError ''Resume is required'' []), ex_db)
   \<and> route_apply ex_cast id_p5 80 (Some ex_candidate) (ex_body id_j3) ex_db
       = (Inr (mk_application id_p5 id_j3 id_c1 80),
          ex_db\<lparr>applications := applications ex_db @ [mk_application id_p5 id_j3 id_c1 80]\<rparr>)
   \<and> coverLetter (mk_application id_p5 id_j3 id_c1 80) = body_coverLetter (ex_body id_j3)
   \<and> data_jobId ex_data = Some id_j3 \<and> data_candidateId ex_data = Some id_c1
   \<and> data_applicationStatus ex_data = None
   \<and> createApplication id_p5 80 ex_data ex_db
       = (Inr ((mk_application id_p5 id_j3 id_c1 80)\<lparr>coverLetter := None, resume := None\<rparr>),
          ex_db\<lparr>applications := applications ex_db @
             [(mk_application id_p5 id_j3 id_c1 80)\<lparr>coverLetter := None, resume := None\<rparr>]\<rparr>)"
  using apply_requires_cover_letter_and_resume
          [of ex_candidate
              "\<lparr>body_jobId = Some id_j3, body_coverLetter = None, body_resume = None\<rparr>"
              ex_cast id_p5 80 ex_db "mk_application id_p5 id_j3 id_c1 80" ex_db
              ex_data id_j3 id_c1]
        apply_requires_cover_letter_and_resume
          [of ex_candidate
              "\<lparr>body_jobId = Some id_j3, body_coverLetter = Some ''Dear team'', body_resume = None\<rparr>"
              ex_cast id_p5 80 ex_db "mk_application id_p5 id_j3 id_c1 80" ex_db
              ex_data id_j3 id_c1]
        apply_requires_cover_letter_and_resume
          [of ex_candidate "ex_body id_j3" ex_cast id_p5 80 ex_db
              "mk_application id_p5 id_j3 id_c1 80"
              "ex_db\<lparr>applications := applications ex_db @ [mk_application id_p5 id_j3 id_c1 80]\<rparr>"
              ex_data id_j3 id_c1]
  by (simp add: ex_defs query_defs ex_cast_simps ex_body_def ex_data_def falsy_def
        route_apply_def authorize_def validateApplication_def applyForJob_def
        createApplication_def Application_create_def new_Application_def
        ApplicationSchema_unique_def violates_unique_def)

section \<open>The applications of a job\<close>

text \<open>
  C9, as stated, fails for admins: the handler loads the job only for an employer, so an
  admin who asks for the applications of a job id that does not exist gets an empty
  listing, not \<^verbatim>\<open>NotFoundError\<close>.
\<close>

theorem job_applications_counterexample:
  "authorize [''employer'', ''admin''] (Some ex_admin) = Inr ()
   \<and> ex_cast id_none = Some id_none
   \<and> Job_findById ex_db id_none = None
   \<and> route_getJobApplications ex_cast (Some ex_admin) id_none ex_db = (Inr [], ex_db)"
  by (simp add: ex_defs query_defs ex_cast_simps authorize_def route_getJobApplications_def
        getJobApplications_def)

text \<open>
  C9, amended. For a job id that casts and that no job has, every employer gets
  \<^verbatim>\<open>NotFoundError\<close>, owner of anything or not (the job is looked up before
  \<^verbatim>\<open>createdBy\<close> is compared). For an admin the job is not looked up: for every id
  that casts, of a job or not, the admin gets the listing of the stored applications whose
  \<^verbatim>\<open>jobId\<close> is that id. A string that does not cast gives both a
  \<^verbatim>\<open>CastError\<close>. The store is unchanged.
\<close>

theorem job_applications_existence_check:
  "(role p = ''employer'' \<longrightarrow> cast jobId_param = Some ident \<longrightarrow>
      Job_findById s ident = None \<longrightarrow>
      route_getJobApplications cast (Some p) jobId_param s
        = (Inl (NotFoundError ''Job not found''), s))
   \<and> (role p = ''admin'' \<longrightarrow> cast jobId_param = Some ident \<longrightarrow>
        route_getJobApplications cast (Some p) jobId_param s
          = (Inr (map (populate_application s)
                    (sort_key (\<lambda>a. - appliedAt a)
                       (filter (\<lambda>a. jobId a = ident) (applications s)))), s))
   \<and> (role p = ''employer'' \<or> role p = ''admin'' \<longrightarrow> cast jobId_param = None \<longrightarrow>
        route_getJobApplications cast (Some p) jobId_param s = (Inl CastError, s))"
  by (auto simp: route_getJobApplications_def authorize_def getJobApplications_def)

theorem job_applications_existence_check_witness:
  "ex_cast id_none = Some id_none
   \<and> Job_findById ex_db id_none = None
   \<and> role ex_employer2 = ''employer''
   \<and> route_getJobApplications ex_cast (Some ex_employer2) id_none ex_db
       = (Inl (NotFoundError ''Job not found''), ex_db)
   \<and> role ex_admin = ''admin''
   \<and> route_getJobApplications ex_cast (Some ex_admin) id_none ex_db = (Inr [], ex_db)
   \<and> ex_cast id_j1 = Some id_j1
   \<and> route_getJobApplications ex_cast (Some ex_admin) id_j1 ex_db
       = (Inr [(mk_application id_p2 id_j1 id_c2 50, Some (id_c2, ''d@x.com''),
                 Some (id_j1, ''Backend Engineer'', ''Acme'')),
                (mk_application id_p1 id_j1 id_c1 40, Some (id_c1, ''c@x.com''),
                 Some (id_j1, ''Backend Engineer'', ''Acme''))], ex_db)
   \<and> ex_cast not_an_id = None
   \<and> route_getJobApplications ex_cast (Some ex_employer2) not_an_id ex_db
       = (Inl CastError, ex_db)
   \<and> route_getJobApplications ex_cast (Some ex_admin) not_an_id ex_db
       = (Inl CastError, ex_db)
   \<and> route_getJobApplications ex_cast (Some ex_employer2) id_j1 ex_db
       = (Inl (AuthorizationError ''Not authorized to view applications for this job''), ex_db)"
  using job_applications_existence_check [of ex_employer2 ex_cast id_none id_none ex_db]
        job_applications_existence_check [of ex_admin ex_cast id_none id_none ex_db]
        job_applications_existence_check [of ex_admin ex_cast id_j1 id_j1 ex_db]
        job_applications_existence_check [of ex_employer2 ex_cast not_an_id id_none ex_db]
        job_applications_existence_check [of ex_admin ex_cast not_an_id id_none ex_db]
  by (simp add: ex_defs query_defs ex_cast_simps route_getJobApplications_def authorize_def
        getJobApplications_def populate_application_def)

section \<open>Public reads of jobs\<close>

text \<open>
  C10. Every job the public listing \<^verbatim>\<open>getAllJobs\<close> returns is a stored job whose
  \<^verbatim>\<open>jobStatus\<close> is Active, for every query and every regex engine. The public
  \<^verbatim>\<open>getJobById\<close>, given a string that casts to the id of a stored job, returns a
  stored job with that id whatever its \<^verbatim>\<open>jobStatus\<close> (the job itself where ids
  are distinct). It fails with \<^verbatim>\<open>NotFoundError\<close> exactly when the string casts to
  an id that no stored job has; a string that does not cast gives \<^verbatim>\<open>CastError\<close>.
\<close>

theorem public_job_reads:
  "(getAllJobs regex q s = Inr r \<longrightarrow>
      (\<forall>(j, c) \<in> set (page_jobs r). jobStatus j = ''Active'' \<and> j \<in> set (jobs s)))
   \<and> (cast id_param = Some (job_id j) \<longrightarrow> j \<in> set (jobs s) \<longrightarrow>
        distinct (map job_id (jobs s)) \<longrightarrow>
        getJobById cast id_param s = Inr (populate_createdBy s j))
   \<and> (cast id_param = Some (job_id j) \<longrightarrow> j \<in> set (jobs s) \<longrightarrow>
        (\<exists>j' c. getJobById cast id_param s = Inr (j', c) \<and> j' \<in> set (jobs s)
                \<and> job_id j' = job_id j))
   \<and> ((\<exists>m. getJobById cast id_param s = Inl (NotFoundError m))
        = (\<exists>ident. cast id_param = Some ident \<and> (\<forall>j \<in> set (jobs s). job_id j \<noteq> ident)))
   \<and> (cast id_param = Some ident \<longrightarrow> (\<forall>j \<in> set (jobs s). job_id j \<noteq> ident) \<longrightarrow>
        getJobById cast id_param s = Inl (NotFoundError ''Job not found''))
   \<and> (cast id_param = None \<longrightarrow> getJobById cast id_param s = Inl CastError)"
proof (intro conjI impI)
  assume "getAllJobs regex q s = Inr r"
  then obtain found where
    f: "paginate (((case query_page q of None \<Rightarrow> 1 | Some p \<Rightarrow> p) - 1)
                    * (case query_limit q of None \<Rightarrow> 10 | Some l \<Rightarrow> l))
          (case query_limit q of None \<Rightarrow> 10 | Some l \<Rightarrow> l)
          (sort_key (\<lambda>j. - job_createdAt j) (filter (getAllJobs_query regex q) (jobs s)))
        = Some found"
    and r: "page_jobs r = map (populate_createdBy s) found"
    by (auto simp: getAllJobs_def Let_def split: if_splits option.splits)
  from paginate_subset [OF f]
  have "set found \<subseteq> {j \<in> set (jobs s). getAllJobs_query regex q j}" by auto
  then show "\<forall>(j, c) \<in> set (page_jobs r). jobStatus j = ''Active'' \<and> j \<in> set (jobs s)"
    by (auto simp: r populate_createdBy_def getAllJobs_query_def)
next
  assume "cast id_param = Some (job_id j)" "j \<in> set (jobs s)" "distinct (map job_id (jobs s))"
  then show "getJobById cast id_param s = Inr (populate_createdBy s j)"
    by (simp add: getJobById_def Job_findById_def findOne_distinct_key)
next
  assume c: "cast id_param = Some (job_id j)" and j: "j \<in> set (jobs s)"
  from j have "Job_findById s (job_id j) \<noteq> None"
    by (auto simp: Job_findById_def findOne_None_iff)
  then obtain j' where j': "Job_findById s (job_id j) = Some j'" by auto
  from findOne_Some_holds [OF j' [unfolded Job_findById_def]]
  show "\<exists>j' c. getJobById cast id_param s = Inr (j', c) \<and> j' \<in> set (jobs s)
          \<and> job_id j' = job_id j"
    by (simp add: getJobById_def c j' populate_createdBy_def)
next
  show "(\<exists>m. getJobById cast id_param s = Inl (NotFoundError m))
        = (\<exists>ident. cast id_param = Some ident \<and> (\<forall>j \<in> set (jobs s). job_id j \<noteq> ident))"
    by (auto simp: getJobById_def Job_findById_def findOne_None_iff split: option.splits
          dest: findOne_Some_holds)
next
  assume "cast id_param = Some ident" "\<forall>j \<in> set (jobs s). job_id j \<noteq> ident"
  then show "getJobById cast id_param s = Inl (NotFoundError ''Job not found'')"
    by (simp add: getJobById_def Job_findById_def findOne_None_iff [THEN iffD2])
next
  assume "cast id_param = None"
  then show "getJobById cast id_param s = Inl CastError"
    by (simp add: getJobById_def)
qed

theorem public_job_reads_witness:
  "getAllJobs ex_regex ex_query ex_db = Inr ex_page
   \<and> jobStatus (mk_job id_j3 id_e2 ''Active'' 30) = ''Active''
   \<and> jobStatus (mk_job id_j1 id_e1 ''Active'' 10) = ''Active''
   \<and> mk_job id_j2 id_e1 ''Inactive'' 20 \<in> set (jobs ex_db)
   \<and> distinct (map job_id (jobs ex_db))
   \<and> ex_cast id_j2 = Some (job_id (mk_job id_j2 id_e1 ''Inactive'' 20))
   \<and> getJobById ex_cast id_j2 ex_db
       = Inr (mk_job id_j2 id_e1 ''Inactive'' 20, Some (id_e1, ''e@x.com''))
   \<and> ex_cast upper_j2 = Some (job_id (mk_job id_j2 id_e1 ''Inactive'' 20))
   \<and> getJobById ex_cast upper_j2 ex_db
       = Inr (mk_job id_j2 id_e1 ''Inactive'' 20, Some (id_e1, ''e@x.com''))
   \<and> ex_cast id_none = Some id_none
   \<and> list_all (\<lambda>j. job_id j \<noteq> id_none) (jobs ex_db)
   \<and> getJobById ex_cast id_none ex_db = Inl (NotFoundError ''Job not found'')
   \<and> ex_cast not_an_id = None
   \<and> getJobById ex_cast not_an_id ex_db = Inl CastError"
  using public_job_reads
          [of ex_regex ex_query ex_db ex_page ex_cast id_j2
              "mk_job id_j2 id_e1 ''Inactive'' 20" id_none]
        public_job_reads
          [of ex_regex ex_query ex_db ex_page ex_cast upper_j2
              "mk_job id_j2 id_e1 ''Inactive'' 20" id_none]
        public_job_reads
          [of ex_regex ex_query ex_db ex_page ex_cast id_none
              "mk_job id_j2 id_e1 ''Inactive'' 20" id_none]
        public_job_reads
          [of ex_regex ex_query ex_db ex_page ex_cast not_an_id
              "mk_job id_j2 id_e1 ''Inactive'' 20" id_none]
  by (simp add: ex_defs query_defs ex_cast_simps getAllJobs_def ex_regex_def ex_query_def
        ex_page_def getAllJobs_query_def regex_ok_def regex_test_def paginate_def
        populate_createdBy_def getJobById_def)

end
